theory Spec2Isabelle
  imports Complex_Main
begin

section \<open>Character classes and string primitives of the platform\<close>

text \<open>
  The scraper is JavaScript. Strings are modelled as HOL strings restricted to ASCII, a
  JavaScript number as an exact rational (type \<open>rat\<close>), and a value that may be
  \<open>null\<close> as an option. Exact rationals agree with binary64 numbers on every decimal
  that binary64 represents without rounding, in particular on all integers that occur as
  prices and on the examples of the specification.
\<close>

definition is_digit :: "char \<Rightarrow> bool" where
  \<comment> \<open>the regular-expression class \<open>\d\<close>\<close>
  "is_digit c = (c \<in> set ''0123456789'')"

definition is_space :: "char \<Rightarrow> bool" where
  \<comment> \<open>the ASCII part of the class \<open>\s\<close>, which is also what \<open>trim\<close> removes\<close>
  "is_space c = (c \<in> set [CHR '' '', CHR 0x09, CHR 0x0A, CHR 0x0B, CHR 0x0C, CHR 0x0D])"

definition lower_char :: "char \<Rightarrow> char" where
  "lower_char c =
     (case map_of (zip ''ABCDEFGHIJKLMNOPQRSTUVWXYZ'' ''abcdefghijklmnopqrstuvwxyz'') c of
        None \<Rightarrow> c
      | Some l \<Rightarrow> l)"

definition toLowerCase :: "string \<Rightarrow> string" where
  "toLowerCase s = map lower_char s"

definition trim :: "string \<Rightarrow> string" where
  "trim s = rev (dropWhile is_space (rev (dropWhile is_space s)))"

fun startsWith :: "string \<Rightarrow> string \<Rightarrow> bool" where
  "startsWith s [] = True"
| "startsWith [] (k # ks) = False"
| "startsWith (c # cs) (k # ks) = (c = k \<and> startsWith cs ks)"

fun includes_str :: "string \<Rightarrow> string \<Rightarrow> bool" where
  \<comment> \<open>\<open>s.includes(k)\<close>: \<open>k\<close> occurs in \<open>s\<close> as a contiguous substring\<close>
  "includes_str [] k = (k = [])"
| "includes_str (c # cs) k = (startsWith (c # cs) k \<or> includes_str cs k)"

definition digit_val :: "char \<Rightarrow> nat" where
  "digit_val c = of_char c - 48"

definition nat_of_digits :: "string \<Rightarrow> nat" where
  "nat_of_digits ds = foldl (\<lambda>a c. 10 * a + digit_val c) 0 ds"

fun show_nat :: "nat \<Rightarrow> string" where
  "show_nat n =
     (if n < 10 then [''0123456789'' ! n]
      else show_nat (n div 10) @ [''0123456789'' ! (n mod 10)])"

declare show_nat.simps [simp del]

definition show_int :: "int \<Rightarrow> string" where
  \<comment> \<open>the decimal rendering of an integer-valued number\<close>
  "show_int i = (if i < 0 then CHR ''-'' # show_nat (nat (- i)) else show_nat (nat i))"

section \<open>Price Parser: \<open>extractPrice\<close>\<close>

text \<open>
  \<open>priceText.replace(/[Kk][Ss][Hh]\.?|,|Shs?\.?|\s/gi, '')\<close>: the alternatives are tried in
  order at each position, case-insensitively; a match is deleted and the scan resumes
  after it, a character where nothing matches is kept. \<open>alt_len\<close> is the length of the
  match at the head of the string (0 when there is none); the optional parts are greedy
  and nothing follows them, so no backtracking occurs.
\<close>

definition opt_dot :: "string \<Rightarrow> nat" where
  "opt_dot s = (case s of [] \<Rightarrow> 0 | c # _ \<Rightarrow> if c = CHR ''.'' then 1 else 0)"

definition match_ksh :: "string \<Rightarrow> nat option" where
  "match_ksh s =
     (case s of
        a # b # c # r \<Rightarrow>
          if lower_char a = CHR ''k'' \<and> lower_char b = CHR ''s'' \<and> lower_char c = CHR ''h''
          then Some (3 + opt_dot r) else None
      | _ \<Rightarrow> None)"

definition match_shs :: "string \<Rightarrow> nat option" where
  "match_shs s =
     (case s of
        a # b # r \<Rightarrow>
          if lower_char a = CHR ''s'' \<and> lower_char b = CHR ''h''
          then (case r of
                  [] \<Rightarrow> Some 2
                | c # r' \<Rightarrow>
                    if lower_char c = CHR ''s'' then Some (3 + opt_dot r')
                    else Some (2 + opt_dot r))
          else None
      | _ \<Rightarrow> None)"

definition alt_len :: "string \<Rightarrow> nat" where
  "alt_len s =
     (case match_ksh s of
        Some n \<Rightarrow> n
      | None \<Rightarrow>
          if s \<noteq> [] \<and> hd s = CHR '','' then 1
          else (case match_shs s of
                  Some n \<Rightarrow> n
                | None \<Rightarrow> if s \<noteq> [] \<and> is_space (hd s) then 1 else 0))"

function strip_currency :: "string \<Rightarrow> string" where
  "strip_currency [] = []"
| "strip_currency (c # cs) =
     (case alt_len (c # cs) of
        0 \<Rightarrow> c # strip_currency cs
      | Suc n \<Rightarrow> strip_currency (drop n cs))"
  by pat_completeness auto
termination
  by (relation "measure length") auto

text \<open>
  \<open>cleanedPrice.match(/(\d+(?:\.\d+)?)/)\<close>: the leftmost run of digits, extended by a dot
  and a further run of digits when both are present. \<open>None\<close> is the failed match.
\<close>

definition match_number :: "string \<Rightarrow> string option" where
  "match_number s =
     (let t = dropWhile (\<lambda>c. \<not> is_digit c) s in
      if t = [] then None
      else
        let ip = takeWhile is_digit t; r = dropWhile is_digit t in
        (case r of
           [] \<Rightarrow> Some ip
         | c # f \<Rightarrow>
             if c = CHR ''.'' \<and> f \<noteq> [] \<and> is_digit (hd f)
             then Some (ip @ CHR ''.'' # takeWhile is_digit f)
             else Some ip))"

definition parseFloat :: "string \<Rightarrow> rat" where
  \<comment> \<open>\<open>parseFloat\<close> on the strings \<open>match_number\<close> yields: digits, or digits, a dot, digits\<close>
  "parseFloat m =
     (let ip = takeWhile is_digit m; r = dropWhile is_digit m in
      (case r of
         [] \<Rightarrow> of_nat (nat_of_digits ip)
       | _ # fp \<Rightarrow> of_nat (nat_of_digits ip) + of_nat (nat_of_digits fp) / 10 ^ length fp))"

definition truthy :: "rat option \<Rightarrow> bool" where
  \<comment> \<open>JavaScript truthiness of a number or \<open>null\<close>: \<open>null\<close> and 0 are falsy\<close>
  "truthy v = (case v of None \<Rightarrow> False | Some x \<Rightarrow> x \<noteq> 0)"

definition extractPrice :: "string \<Rightarrow> rat option" where
  "extractPrice priceText =
     (if priceText = [] then None
      else
        let cleanedPrice = trim (strip_currency priceText);
            price = (case match_number cleanedPrice of
                       Some m \<Rightarrow> Some (parseFloat m)
                     | None \<Rightarrow> None)
        in if truthy price \<and> the price < 100 then None else price)"

section \<open>Category Classifier: \<open>determineCategory\<close>\<close>

definition determineCategory :: "string \<Rightarrow> string option" where
  "determineCategory name =
     (if name = [] then None
      else
        let lowerName = toLowerCase name in
        if includes_str lowerName ''phone'' \<or> includes_str lowerName ''smartphone'' \<or>
           includes_str lowerName ''iphone'' \<or> includes_str lowerName ''android'' \<or>
           includes_str lowerName ''tecno'' \<or> includes_str lowerName ''infinix'' \<or>
           includes_str lowerName ''samsung'' \<or> includes_str lowerName ''xiaomi''
        then Some ''phone''
        else if includes_str lowerName ''laptop'' \<or> includes_str lowerName ''notebook'' \<or>
           includes_str lowerName ''macbook'' \<or> includes_str lowerName ''computer'' \<or>
           includes_str lowerName ''lenovo'' \<or> includes_str lowerName ''hp '' \<or>
           includes_str lowerName ''dell'' \<or> includes_str lowerName ''asus''
        then Some ''laptop''
        else None)"

definition phone_keywords :: "string list" where
  "phone_keywords =
     [''phone'', ''smartphone'', ''iphone'', ''android'', ''tecno'', ''infinix'', ''samsung'',
      ''xiaomi'']"

definition laptop_keywords :: "string list" where
  "laptop_keywords =
     [''laptop'', ''notebook'', ''macbook'', ''computer'', ''lenovo'', ''hp '', ''dell'',
      ''asus'']"

section \<open>Discount Calculator: \<open>calculateDiscount\<close>\<close>

definition Math_round :: "rat \<Rightarrow> int" where
  \<comment> \<open>\<open>Math.round\<close>: the nearest integer, a tie going up\<close>
  "Math_round x = \<lfloor>x + 1 / 2\<rfloor>"

definition calculateDiscount :: "rat option \<Rightarrow> rat option \<Rightarrow> string" where
  "calculateDiscount originalPrice currentPrice =
     (if \<not> truthy originalPrice \<or> \<not> truthy currentPrice \<or> the originalPrice \<le> the currentPrice
      then []
      else
        let discount =
              Math_round (((the originalPrice - the currentPrice) / the originalPrice) * 100)
        in show_int discount @ ''%'')"

section \<open>Product records and the extraction strategies\<close>

record product =
  shop :: string
  name :: string
  category :: "string option"
  currentPrice :: rat
  originalPrice :: rat
  discount :: string
  url :: string
  imageUrl :: string
  timestamp :: string

text \<open>
  A product element of the parsed markup is given by what the queries of the extraction
  strategies return on it: \<open>find_text e sel\<close> is \<open>$element.find(sel).text()\<close>,
  \<open>find_first_text e sel\<close> is \<open>$element.find(sel).first().text()\<close>, and
  \<open>find_attr e sel a\<close> is \<open>$element.find(sel).attr(a)\<close>, \<open>None\<close> for \<open>undefined\<close>.
\<close>

record element =
  find_text :: "string \<Rightarrow> string"
  find_first_text :: "string \<Rightarrow> string"
  find_attr :: "string \<Rightarrow> string \<Rightarrow> string option"

definition or_str :: "string \<Rightarrow> string \<Rightarrow> string" where
  \<comment> \<open>\<open>a || b\<close> on strings: the empty string is falsy\<close>
  "or_str a b = (if a = [] then b else a)"

definition or_attr :: "string option \<Rightarrow> string \<Rightarrow> string" where
  \<comment> \<open>\<open>a || b\<close> where \<open>a\<close> is an attribute value or \<open>undefined\<close>\<close>
  "or_attr a b = (case a of None \<Rightarrow> b | Some v \<Rightarrow> if v = [] then b else v)"

definition or_price :: "rat option \<Rightarrow> rat option \<Rightarrow> rat option" where
  \<comment> \<open>\<open>a || b\<close> on prices\<close>
  "or_price a b = (if truthy a then a else b)"

text \<open>
  Each strategy returns \<open>null\<close> (here \<open>None\<close>) unless the name is non-empty and the current
  price is truthy; a record is only built behind that check, where both prices are numbers.
  The time stamp \<open>new Date().toISOString()\<close> is the parameter \<open>now\<close>.
\<close>

definition extractJumiaProduct :: "element \<Rightarrow> string \<Rightarrow> string \<Rightarrow> product option" where
  "extractJumiaProduct el shopName now =
     (let name = or_str (trim (find_text el ''.name'')) ''Unknown Product'';
          currentPriceText = trim (find_text el ''.prc'');
          originalPriceText = trim (find_text el ''.old'');
          currentPrice = extractPrice currentPriceText;
          originalPrice = or_price (extractPrice originalPriceText) currentPrice;
          discountText = trim (find_text el ''.bdg._dsct'');
          discount = or_str discountText (calculateDiscount originalPrice currentPrice);
          relativeUrl = find_attr el ''a'' ''href'';
          url = (case relativeUrl of
                   None \<Rightarrow> []
                 | Some r \<Rightarrow> if r = [] then [] else ''https://www.jumia.co.ke'' @ r);
          imageUrl = or_attr (find_attr el ''img'' ''data-src'')
                       (or_attr (find_attr el ''img'' ''src'') []);
          category = determineCategory name
      in if name = [] \<or> \<not> truthy currentPrice then None
         else Some \<lparr> shop = shopName, name = name, category = category,
                     currentPrice = the currentPrice, originalPrice = the originalPrice,
                     discount = discount, url = url, imageUrl = imageUrl, timestamp = now \<rparr>)"

definition extractKilimallProduct :: "element \<Rightarrow> string \<Rightarrow> string \<Rightarrow> product option" where
  "extractKilimallProduct el shopName now =
     (let name = or_str (trim (find_text el ''.title, .name'')) ''Unknown Product'';
          priceText = trim (find_text el ''.price, .prc'');
          price = extractPrice priceText;
          category = determineCategory name
      in if name = [] \<or> \<not> truthy price then None
         else Some \<lparr> shop = shopName, name = name, category = category,
                     currentPrice = the price, originalPrice = the price,
                     discount = [], url = [], imageUrl = [], timestamp = now \<rparr>)"

definition extractGenericProduct :: "element \<Rightarrow> string \<Rightarrow> string \<Rightarrow> product option" where
  "extractGenericProduct el shopName now =
     (let name = or_str (trim (find_first_text el ''h3, h4, .title, .name'')) ''Unknown Product'';
          priceText = trim (find_first_text el ''.price, .prc, .cost'');
          price = extractPrice priceText;
          category = determineCategory name
      in if name = [] \<or> \<not> truthy price then None
         else Some \<lparr> shop = shopName, name = name, category = category,
                     currentPrice = the price, originalPrice = the price,
                     discount = [], url = [], imageUrl = [], timestamp = now \<rparr>)"

definition extractProductInfo ::
  "element \<Rightarrow> string \<Rightarrow> string \<Rightarrow> string \<Rightarrow> product option" where
  "extractProductInfo el shopName pageUrl now =
     (if includes_str shopName ''Jumia'' then extractJumiaProduct el shopName now
      else if includes_str shopName ''Kilimall'' then extractKilimallProduct el shopName now
      else extractGenericProduct el shopName now)"

section \<open>Page Extractor and Shop Crawler: \<open>scrapePage\<close>, \<open>scrapeShop\<close>\<close>

definition MAX_PRICE :: rat where
  "MAX_PRICE = 10000"

record shop_config =
  shop_name :: string
  baseUrl :: string
  flashSalesUrl :: string
  searchUrls :: "string list"

definition SHOPS :: "shop_config list" where
  "SHOPS =
     [\<lparr> shop_name = ''Jumia Kenya'',
        baseUrl = ''https://www.jumia.co.ke'',
        flashSalesUrl = ''https://www.jumia.co.ke/mlp-flash-sales/'',
        searchUrls = [''https://www.jumia.co.ke/laptops/'',
                      ''https://www.jumia.co.ke/smartphones/''] \<rparr>,
      \<lparr> shop_name = ''Kilimall Kenya'',
        baseUrl = ''https://www.kilimall.co.ke'',
        flashSalesUrl = ''https://www.kilimall.co.ke/new-flash-sale.html'',
        searchUrls = [''https://www.kilimall.co.ke/kilimall-flash-sale-laptop-c-10000007.html'',
                      ''https://www.kilimall.co.ke/kilimall-flash-sale-phone-c-10000001.html''] \<rparr>]"

text \<open>
  The outside world: \<open>axios_get w url\<close> is the body of the response to
  \<open>axios.get(url, ...)\<close> or the error it throws, \<open>cheerio_load w body\<close> the parsed
  document or the error of the parser. A parsed document is the function from a selector
  to the elements \<open>$(selector)\<close> finds. The crawler's effect on the world is the
  sequence of URLs it has requested, passed along as explicit state.
\<close>

datatype js_error = Error string

type_synonym document = "string \<Rightarrow> element list"

record world =
  axios_get :: "string \<Rightarrow> js_error + string"
  cheerio_load :: "string \<Rightarrow> js_error + document"
  clock :: string

definition productSelectors :: "string list" where
  "productSelectors = [''.prd'', ''.product-item'', ''.item'', ''[data-gtm-product]'', ''.product'']"

fun select_elements :: "document \<Rightarrow> string list \<Rightarrow> element list option" where
  \<comment> \<open>the first selector that finds at least one element; \<open>None\<close> is \<open>productElements = null\<close>\<close>
  "select_elements doc [] = None"
| "select_elements doc (selector # selectors) =
     (let elements = doc selector in
      if length elements > 0 then Some elements else select_elements doc selectors)"

fun each_element ::
  "element list \<Rightarrow> string \<Rightarrow> string \<Rightarrow> string \<Rightarrow> product list \<Rightarrow> product list" where
  \<comment> \<open>the body of \<open>productElements.each\<close>, pushing onto \<open>products\<close>\<close>
  "each_element [] shopName pageUrl now products = products"
| "each_element (el # els) shopName pageUrl now products =
     each_element els shopName pageUrl now
       (case extractProductInfo el shopName pageUrl now of
          None \<Rightarrow> products
        | Some product \<Rightarrow>
            if currentPrice product \<noteq> 0 \<and> currentPrice product \<le> MAX_PRICE
            then (if category product = Some ''phone'' \<or> category product = Some ''laptop''
                  then products @ [product] else products)
            else products)"

definition scrapePage ::
  "world \<Rightarrow> string \<Rightarrow> string \<Rightarrow> string list \<Rightarrow> product list \<times> string list" where
  \<comment> \<open>the result, and the request log extended by the page's URL\<close>
  "scrapePage w pageUrl shopName requests =
     (case axios_get w pageUrl of
        Inl error \<Rightarrow> ([], requests @ [pageUrl])
      | Inr body \<Rightarrow>
          (case cheerio_load w body of
             Inl error \<Rightarrow> ([], requests @ [pageUrl])
           | Inr doc \<Rightarrow>
               (case select_elements doc productSelectors of
                  None \<Rightarrow> ([], requests @ [pageUrl])
                | Some productElements \<Rightarrow>
                    (each_element productElements shopName pageUrl (clock w) [],
                     requests @ [pageUrl]))))"

fun scrapeShop_loop ::
  "world \<Rightarrow> string \<Rightarrow> string list \<Rightarrow> product list \<times> string list \<Rightarrow>
   product list \<times> string list" where
  \<comment> \<open>\<open>for (const url of shop.searchUrls)\<close>\<close>
  "scrapeShop_loop w shopName [] (products, requests) = (products, requests)"
| "scrapeShop_loop w shopName (pageUrl # urls) (products, requests) =
     (let (pageProducts, requests') = scrapePage w pageUrl shopName requests
      in scrapeShop_loop w shopName urls (products @ pageProducts, requests'))"

definition scrapeShop ::
  "world \<Rightarrow> shop_config \<Rightarrow> string list \<Rightarrow> product list \<times> string list" where
  "scrapeShop w shopCfg requests =
     (let (flashSaleProducts, requests') =
            scrapePage w (flashSalesUrl shopCfg) (shop_name shopCfg) requests
      in scrapeShop_loop w (shop_name shopCfg) (searchUrls shopCfg)
           ([] @ flashSaleProducts, requests'))"

section \<open>Aggregator: \<open>removeDuplicates\<close>, sorting, \<open>main\<close>\<close>

text \<open>
  The key of \<open>removeDuplicates\<close> is the template string
  \<open>`${product.name}-${product.currentPrice}-${product.shop}`\<close>. \<open>number_to_string\<close> is the
  decimal rendering of a number in a template: the integer part and, when there is one,
  the fraction's digits.
\<close>

fun frac_digits :: "nat \<Rightarrow> rat \<Rightarrow> string" where
  "frac_digits 0 f = []"
| "frac_digits (Suc n) f =
     (if f = 0 then []
      else
        let d = nat \<lfloor>f * 10\<rfloor>
        in (''0123456789'' ! d) # frac_digits n (f * 10 - of_nat d))"

definition number_to_string :: "rat \<Rightarrow> string" where
  "number_to_string r =
     (let a = \<bar>r\<bar>; i = nat \<lfloor>a\<rfloor>; f = a - of_nat i
      in (if r < 0 then ''-'' else []) @ show_nat i @
         (if f = 0 then [] else CHR ''.'' # frac_digits 17 f))"

definition dedup_key :: "product \<Rightarrow> string" where
  "dedup_key product =
     name product @ ''-'' @ number_to_string (currentPrice product) @ ''-'' @ shop product"

fun removeDuplicates_filter :: "string set \<Rightarrow> product list \<Rightarrow> product list" where
  \<comment> \<open>\<open>products.filter\<close> with the set \<open>seen\<close> as its state\<close>
  "removeDuplicates_filter seen [] = []"
| "removeDuplicates_filter seen (product # products) =
     (let key = dedup_key product in
      if key \<in> seen then removeDuplicates_filter seen products
      else product # removeDuplicates_filter (insert key seen) products)"

definition removeDuplicates :: "product list \<Rightarrow> product list" where
  "removeDuplicates products = removeDuplicates_filter {} products"

definition sort_by_price :: "product list \<Rightarrow> product list" where
  \<comment> \<open>\<open>allProducts.sort((a, b) => a.currentPrice - b.currentPrice)\<close>; the sort is stable\<close>
  "sort_by_price products = sort_key currentPrice products"

record artifact =
  generated :: string
  totalItems :: nat
  items :: "product list"

fun scrape_shops ::
  "world \<Rightarrow> shop_config list \<Rightarrow> product list \<times> string list \<Rightarrow> product list \<times> string list" where
  \<comment> \<open>\<open>for (const shop of SHOPS)\<close>\<close>
  "scrape_shops w [] (allProducts, requests) = (allProducts, requests)"
| "scrape_shops w (shopCfg # shops) (allProducts, requests) =
     (let (products, requests') = scrapeShop w shopCfg requests
      in scrape_shops w shops (allProducts @ products, requests'))"

definition saveResults :: "world \<Rightarrow> product list \<Rightarrow> artifact" where
  "saveResults w results =
     \<lparr> generated = clock w, totalItems = length results, items = results \<rparr>"

definition main :: "world \<Rightarrow> artifact \<times> string list" where
  \<comment> \<open>the data written to the output file, and the URLs requested\<close>
  "main w =
     (let (allProducts, requests) = scrape_shops w SHOPS ([], []);
          allProducts = removeDuplicates allProducts;
          allProducts = sort_by_price allProducts
      in (saveResults w allProducts, requests))"

section \<open>Fixtures for concrete runs\<close>

text \<open>
  \<open>mk_element\<close> builds an element from the table of its query results, every query that
  is not listed finding nothing; \<open>mk_document\<close> does the same for a parsed page.
\<close>

definition lookup_text :: "(string \<times> string) list \<Rightarrow> string \<Rightarrow> string" where
  "lookup_text tab sel = (case map_of tab sel of None \<Rightarrow> [] | Some t \<Rightarrow> t)"

definition mk_element ::
  "(string \<times> string) list \<Rightarrow> ((string \<times> string) \<times> string) list \<Rightarrow> element" where
  "mk_element texts attrs =
     \<lparr> find_text = lookup_text texts, find_first_text = lookup_text texts,
       find_attr = (\<lambda>sel a. map_of attrs (sel, a)) \<rparr>"

definition mk_document :: "(string \<times> element list) list \<Rightarrow> document" where
  "mk_document tab sel = (case map_of tab sel of None \<Rightarrow> [] | Some els \<Rightarrow> els)"

definition jumia_lower_original :: element where
  \<comment> \<open>a Jumia product block whose struck-out price is below the current price\<close>
  "jumia_lower_original =
     mk_element [(''.name'', ''Tecno Spark Phone''), (''.prc'', ''KSh 800''), (''.old'', ''KSh 500'')]
       [((''a'', ''href''), ''/tecno-spark.html'')]"

definition jumia_no_original :: element where
  \<comment> \<open>a Jumia product block without a struck-out price, with a discount badge\<close>
  "jumia_no_original =
     mk_element [(''.name'', ''HP Laptop 15''), (''.prc'', '' KSh 9,200 ''), (''.bdg._dsct'', ''-20%'')]
       [((''img'', ''src''), ''hp.jpg'')]"

definition kilimall_block :: element where
  "kilimall_block =
     mk_element [(''.title, .name'', ''Samsung Galaxy A05''), (''.price, .prc'', ''KSh 8,500'')]
       [((''a'', ''href''), ''/samsung.html''), ((''img'', ''src''), ''a05.jpg'')]"

definition tecno_8500 :: element where
  "tecno_8500 =
     mk_element [(''.name'', ''Tecno Spark Phone''), (''.prc'', ''KSh 8,500''), (''.old'', ''KSh 12,000'')]
       [((''a'', ''href''), ''/tecno-spark.html''), ((''img'', ''data-src''), ''tecno.jpg'')]"

definition phone_case_54 :: element where
  "phone_case_54 = mk_element [(''.name'', ''Phone Case''), (''.prc'', ''KSh 54'')] []"

definition hp_15000 :: element where
  "hp_15000 = mk_element [(''.name'', ''HP Laptop''), (''.prc'', ''KSh 15,000'')] []"

definition infinix_3000 :: element where
  "infinix_3000 = mk_element [(''.name'', ''Infinix Hot 10''), (''.prc'', ''KSh 3,000'')] []"

text \<open>
  A run in which the flash-sale page of Jumia cannot be fetched, its two category pages
  are served, the flash-sale page of Kilimall is served but does not parse, and the
  category pages of Kilimall cannot be fetched.
\<close>

definition flash_down_world :: world where
  "flash_down_world =
     \<lparr> axios_get =
         (\<lambda>u. case map_of [(''https://www.jumia.co.ke/laptops/'', ''laptops''),
                            (''https://www.jumia.co.ke/smartphones/'', ''smartphones''),
                            (''https://www.kilimall.co.ke/new-flash-sale.html'', ''garbled'')] u of
                 None \<Rightarrow> Inl (Error ''Network Error'')
               | Some body \<Rightarrow> Inr body),
       cheerio_load =
         (\<lambda>body. case map_of
                      [(''laptops'', mk_document [(''.prd'', [jumia_no_original])]),
                       (''smartphones'',
                        mk_document [(''.product-item'',
                                      [infinix_3000, tecno_8500, phone_case_54, hp_15000])])]
                      body of
                    None \<Rightarrow> Inl (Error ''parse error'')
                  | Some doc \<Rightarrow> Inr doc),
       clock = ''2026-01-01T00:00:00.000Z'' \<rparr>"

definition hp_record :: product where
  "hp_record =
     \<lparr> shop = ''Jumia Kenya'', name = ''HP Laptop 15'', category = Some ''laptop'',
       currentPrice = 9200, originalPrice = 9200, discount = ''-20%'', url = [],
       imageUrl = ''hp.jpg'', timestamp = ''2026-01-01T00:00:00.000Z'' \<rparr>"

definition infinix_record :: product where
  "infinix_record =
     \<lparr> shop = ''Jumia Kenya'', name = ''Infinix Hot 10'', category = Some ''phone'',
       currentPrice = 3000, originalPrice = 3000, discount = [], url = [],
       imageUrl = [], timestamp = ''2026-01-01T00:00:00.000Z'' \<rparr>"

definition tecno_record :: product where
  "tecno_record =
     \<lparr> shop = ''Jumia Kenya'', name = ''Tecno Spark Phone'', category = Some ''phone'',
       currentPrice = 8500, originalPrice = 12000, discount = ''29%'',
       url = ''https://www.jumia.co.ke/tecno-spark.html'', imageUrl = ''tecno.jpg'',
       timestamp = ''2026-01-01T00:00:00.000Z'' \<rparr>"

section \<open>Reference definitions in the words of the specification\<close>










text \<open>The acceptance gate of \<open>scrapePage\<close>, as a predicate on records.\<close>

definition accepted :: "product \<Rightarrow> bool" where
  "accepted p =
     ((category p = Some ''phone'' \<or> category p = Some ''laptop'') \<and>
      currentPrice p \<noteq> 0 \<and> currentPrice p \<le> 10000)"

section \<open>Evaluation rules\<close>

lemma floor_rat_numeral:
  "\<lfloor>(numeral a / numeral b :: rat)\<rfloor> = numeral a div numeral b"
  using floor_divide_of_int_eq [of "numeral a" "numeral b", where ?'a = rat] by simp

lemma floor_rat_neg_numeral:
  "\<lfloor>(- (numeral a / numeral b) :: rat)\<rfloor> = - numeral a div numeral b"
  using floor_divide_of_int_eq [of "- numeral a" "numeral b", where ?'a = rat] by simp

lemma show_nat_numeral:
  "show_nat (numeral k) =
     (if (numeral k :: nat) < 10 then [''0123456789'' ! numeral k]
      else show_nat (numeral k div 10) @ [''0123456789'' ! (numeral k mod 10)])"
  by (rule show_nat.simps)

lemma show_nat_0: "show_nat 0 = ''0''"
  by (simp add: show_nat.simps [of 0])

lemma show_nat_1: "show_nat (Suc 0) = ''1''"
  by (simp add: show_nat.simps [of "Suc 0"])

lemma frac_digits_numeral:
  "frac_digits (numeral k) f =
     (if f = 0 then []
      else (''0123456789'' ! nat \<lfloor>f * 10\<rfloor>) #
           frac_digits (pred_numeral k) (f * 10 - of_nat (nat \<lfloor>f * 10\<rfloor>)))"
  by (simp add: numeral_eq_Suc Let_def)

lemmas show_eval = floor_rat_numeral floor_rat_neg_numeral
  show_nat_numeral show_nat_0 show_nat_1 frac_digits_numeral show_int_def
  number_to_string_def Let_def

lemmas price_eval = extractPrice_def Let_def trim_def match_number_def parseFloat_def truthy_def
  alt_len_def match_ksh_def match_shs_def opt_dot_def is_digit_def is_space_def lower_char_def
  nat_of_digits_def digit_val_def

lemmas discount_eval = calculateDiscount_def truthy_def Math_round_def show_eval

lemmas category_eval = determineCategory_def toLowerCase_def lower_char_def Let_def

section \<open>Discount Calculator\<close>




section \<open>Price Parser\<close>

text \<open>
  Claim C3. A first number that parses to less than 100, zero included, should be rejected.
  The floor test is \<open>price && price < 100\<close>, which a parsed 0 does not pass: the parser
  returns 0 and not \<open>null\<close> on the inputs below.
\<close>

theorem extractPrice_zero_not_rejected:
  "extractPrice ''KSh 0'' = Some 0 \<and> extractPrice ''0'' = Some 0"
  by (simp add: price_eval)

section \<open>Category Classifier\<close>

lemma startsWith_map: "startsWith s k \<Longrightarrow> startsWith (map f s) (map f k)"
  by (induction s k rule: startsWith.induct) auto

lemma includes_str_map: "includes_str s k \<Longrightarrow> includes_str (map f s) (map f k)"
proof (induction s)
  case Nil
  then show ?case by simp
next
  case (Cons c cs)
  then show ?case using startsWith_map [of "c # cs" k f] by auto
qed

lemma keywords_lower:
  "k \<in> set phone_keywords \<union> set laptop_keywords \<Longrightarrow> toLowerCase k = k"
  by (auto simp: phone_keywords_def laptop_keywords_def toLowerCase_def lower_char_def)

lemma includes_keyword_lower:
  assumes "k \<in> set phone_keywords \<union> set laptop_keywords"
    and "includes_str nm k \<or> includes_str (toLowerCase nm) k"
  shows "includes_str (toLowerCase nm) k"
  using assms includes_str_map [of nm k lower_char] keywords_lower [of k]
  by (auto simp: toLowerCase_def)

lemma includes_str_Nil_keyword:
  "k \<in> set phone_keywords \<union> set laptop_keywords \<Longrightarrow> \<not> includes_str [] k"
  by (auto simp: phone_keywords_def laptop_keywords_def)

lemma determineCategory_phone:
  assumes "pk \<in> set phone_keywords" and "includes_str (toLowerCase nm) pk"
  shows "determineCategory nm = Some ''phone''"
proof -
  have "nm \<noteq> []"
    using assms includes_str_Nil_keyword [of pk] by (auto simp: toLowerCase_def)
  then show ?thesis
    using assms by (auto simp: determineCategory_def Let_def phone_keywords_def)
qed

text \<open>
  Claim C5. \<open>determineCategory\<close> is total: every name maps to exactly one of phone, laptop
  and unclassified (\<open>None\<close>). A name that contains a phone keyword and a laptop keyword,
  as written or after lower-casing, is classified as phone, the phone keywords being
  tested first.
\<close>

theorem determineCategory_total_phone_first:
  "determineCategory nm \<in> {Some ''phone'', Some ''laptop'', None} \<and>
   (pk \<in> set phone_keywords \<and> lk \<in> set laptop_keywords \<and>
    (includes_str nm pk \<or> includes_str (toLowerCase nm) pk) \<and>
    (includes_str nm lk \<or> includes_str (toLowerCase nm) lk)
    \<longrightarrow> determineCategory nm = Some ''phone'')"
proof
  show "determineCategory nm \<in> {Some ''phone'', Some ''laptop'', None}"
    by (simp add: determineCategory_def Let_def)
  show "pk \<in> set phone_keywords \<and> lk \<in> set laptop_keywords \<and>
    (includes_str nm pk \<or> includes_str (toLowerCase nm) pk) \<and>
    (includes_str nm lk \<or> includes_str (toLowerCase nm) lk)
    \<longrightarrow> determineCategory nm = Some ''phone''"
    using includes_keyword_lower [of pk nm] determineCategory_phone [of pk nm] by blast
qed

theorem determineCategory_total_phone_first_witness:
  "''phone'' \<in> set phone_keywords \<and> ''lenovo'' \<in> set laptop_keywords \<and>
   includes_str ''lenovo phone holder'' ''phone'' \<and>
   includes_str ''lenovo phone holder'' ''lenovo'' \<and>
   determineCategory ''lenovo phone holder'' = Some ''phone''"
  using determineCategory_total_phone_first [of "''lenovo phone holder''" "''phone''" "''lenovo''"]
  by (simp add: phone_keywords_def laptop_keywords_def)

section \<open>The fixtures, evaluated\<close>

lemmas fixture_eval = mk_element_def mk_document_def lookup_text_def

lemma fixture_prices:
  "extractPrice ''KSh 9,200'' = Some 9200"
  "extractPrice ''KSh 3,000'' = Some 3000"
  "extractPrice ''KSh 8,500'' = Some 8500"
  "extractPrice ''KSh 12,000'' = Some 12000"
  "extractPrice ''KSh 15,000'' = Some 15000"
  "extractPrice ''KSh 54'' = None"
  "extractPrice ''KSh 800'' = Some 800"
  "extractPrice ''KSh 500'' = Some 500"
  "extractPrice [] = None"
  by (simp_all add: price_eval)

lemma fixture_categories:
  "determineCategory ''HP Laptop 15'' = Some ''laptop''"
  "determineCategory ''Infinix Hot 10'' = Some ''phone''"
  "determineCategory ''Tecno Spark Phone'' = Some ''phone''"
  "determineCategory ''Phone Case'' = Some ''phone''"
  "determineCategory ''HP Laptop'' = Some ''laptop''"
  "determineCategory ''Samsung Galaxy A05'' = Some ''phone''"
  by (simp_all add: category_eval)

lemma fixture_discounts:
  "calculateDiscount (Some 9200) (Some 9200) = []"
  "calculateDiscount (Some 3000) (Some 3000) = []"
  "calculateDiscount (Some 12000) (Some 8500) = ''29%''"
  "calculateDiscount (Some 15000) (Some 15000) = []"
  "calculateDiscount (Some 500) (Some 800) = []"
  "calculateDiscount None None = []"
  by (simp_all add: discount_eval)

lemma shop_tests:
  "includes_str ''Jumia Kenya'' ''Jumia''"
  "\<not> includes_str ''Kilimall Kenya'' ''Jumia''"
  "includes_str ''Kilimall Kenya'' ''Kilimall''"
  by simp_all

lemma trim_fixture:
  "trim [] = []"
  "trim ''HP Laptop 15'' = ''HP Laptop 15''"
  "trim '' KSh 9,200 '' = ''KSh 9,200''"
  "trim ''-20%'' = ''-20%''"
  "trim ''Infinix Hot 10'' = ''Infinix Hot 10''"
  "trim ''KSh 3,000'' = ''KSh 3,000''"
  "trim ''Tecno Spark Phone'' = ''Tecno Spark Phone''"
  "trim ''KSh 8,500'' = ''KSh 8,500''"
  "trim ''KSh 12,000'' = ''KSh 12,000''"
  "trim ''Phone Case'' = ''Phone Case''"
  "trim ''KSh 54'' = ''KSh 54''"
  "trim ''HP Laptop'' = ''HP Laptop''"
  "trim ''KSh 15,000'' = ''KSh 15,000''"
  "trim ''KSh 800'' = ''KSh 800''"
  "trim ''KSh 500'' = ''KSh 500''"
  "trim ''Samsung Galaxy A05'' = ''Samsung Galaxy A05''"
  by (simp_all add: trim_def is_space_def)

lemmas jumia_eval = extractProductInfo_def extractJumiaProduct_def shop_tests fixture_eval
  trim_fixture fixture_prices fixture_categories fixture_discounts or_str_def or_attr_def
  or_price_def truthy_def

lemma hp_block_record:
  "extractProductInfo jumia_no_original ''Jumia Kenya'' u ''2026-01-01T00:00:00.000Z'' =
     Some hp_record"
  by (simp add: jumia_eval jumia_no_original_def hp_record_def)

lemma infinix_block_record:
  "extractProductInfo infinix_3000 ''Jumia Kenya'' u ''2026-01-01T00:00:00.000Z'' =
     Some infinix_record"
  by (simp add: jumia_eval infinix_3000_def infinix_record_def)

lemma tecno_block_record:
  "extractProductInfo tecno_8500 ''Jumia Kenya'' u ''2026-01-01T00:00:00.000Z'' =
     Some tecno_record"
  by (simp add: jumia_eval tecno_8500_def tecno_record_def)

lemma phone_case_block_record:
  "extractProductInfo phone_case_54 ''Jumia Kenya'' u t = None"
  by (simp add: jumia_eval phone_case_54_def)

lemma hp_15000_block_record:
  "extractProductInfo hp_15000 ''Jumia Kenya'' u t =
     Some \<lparr> shop = ''Jumia Kenya'', name = ''HP Laptop'', category = Some ''laptop'',
            currentPrice = 15000, originalPrice = 15000, discount = [], url = [],
            imageUrl = [], timestamp = t \<rparr>"
  by (simp add: jumia_eval hp_15000_def)

lemma kilimall_block_record:
  "extractProductInfo kilimall_block ''Kilimall Kenya'' u t =
     Some \<lparr> shop = ''Kilimall Kenya'', name = ''Samsung Galaxy A05'', category = Some ''phone'',
            currentPrice = 8500, originalPrice = 8500, discount = [], url = [], imageUrl = [],
            timestamp = t \<rparr>"
  by (simp add: extractProductInfo_def extractKilimallProduct_def shop_tests fixture_eval
        kilimall_block_def trim_fixture fixture_prices fixture_categories or_str_def truthy_def)

lemma jumia_lower_original_record:
  "extractProductInfo jumia_lower_original ''Jumia Kenya'' u t =
     Some \<lparr> shop = ''Jumia Kenya'', name = ''Tecno Spark Phone'', category = Some ''phone'',
            currentPrice = 800, originalPrice = 500, discount = [],
            url = ''https://www.jumia.co.ke/tecno-spark.html'', imageUrl = [],
            timestamp = t \<rparr>"
  by (simp add: jumia_eval jumia_lower_original_def)

lemma jumia_lower_original_texts:
  "trim (find_text jumia_lower_original ''.old'') = ''KSh 500''"
  "trim (find_text jumia_lower_original ''.prc'') = ''KSh 800''"
  "trim (find_text jumia_lower_original ''.bdg._dsct'') = []"
  "trim (find_text jumia_no_original ''.old'') = []"
  "trim (find_text jumia_no_original ''.bdg._dsct'') = ''-20%''"
  by (simp_all add: jumia_lower_original_def jumia_no_original_def fixture_eval trim_fixture)

section \<open>Extraction strategies\<close>

lemma extractKilimallProduct_plain:
  "extractKilimallProduct el shopName now = Some p \<Longrightarrow>
   discount p = [] \<and> url p = [] \<and> imageUrl p = [] \<and> originalPrice p = currentPrice p"
  by (auto simp: extractKilimallProduct_def Let_def split: if_splits)

lemma extractGenericProduct_plain:
  "extractGenericProduct el shopName now = Some p \<Longrightarrow>
   discount p = [] \<and> url p = [] \<and> imageUrl p = [] \<and> originalPrice p = currentPrice p"
  by (auto simp: extractGenericProduct_def Let_def split: if_splits)

lemma non_jumia_plain:
  assumes "\<not> includes_str shopName ''Jumia''"
    and "extractProductInfo el shopName pageUrl now = Some p"
  shows "discount p = [] \<and> url p = [] \<and> imageUrl p = [] \<and> originalPrice p = currentPrice p"
  using assms extractKilimallProduct_plain [of el shopName now p]
    extractGenericProduct_plain [of el shopName now p]
  by (simp add: extractProductInfo_def split: if_splits)

text \<open>
  Claim C10. A record built for a shop whose name does not contain \<open>Jumia\<close>, that is by
  the Kilimall strategy or the generic one, has empty \<open>discount\<close>, \<open>url\<close> and \<open>imageUrl\<close>
  and its \<open>originalPrice\<close> equals its \<open>currentPrice\<close>; a record in which one of these
  fails was built by the Jumia strategy.
\<close>

theorem non_jumia_record_plain:
  assumes "extractProductInfo el shopName pageUrl now = Some p"
  shows "(\<not> includes_str shopName ''Jumia'' \<longrightarrow>
            discount p = [] \<and> url p = [] \<and> imageUrl p = [] \<and> originalPrice p = currentPrice p)
    \<and> (discount p \<noteq> [] \<or> url p \<noteq> [] \<or> imageUrl p \<noteq> [] \<or> originalPrice p \<noteq> currentPrice p
         \<longrightarrow> includes_str shopName ''Jumia'' \<and> extractJumiaProduct el shopName now = Some p)"
proof (cases "includes_str shopName ''Jumia''")
  case True
  then show ?thesis using assms by (simp add: extractProductInfo_def)
next
  case False
  then show ?thesis using non_jumia_plain [OF False assms] by simp
qed

theorem non_jumia_record_plain_witness:
  "extractProductInfo kilimall_block ''Kilimall Kenya'' ''u'' ''t'' =
     Some \<lparr> shop = ''Kilimall Kenya'', name = ''Samsung Galaxy A05'', category = Some ''phone'',
            currentPrice = 8500, originalPrice = 8500, discount = [], url = [], imageUrl = [],
            timestamp = ''t'' \<rparr> \<and>
   \<not> includes_str ''Kilimall Kenya'' ''Jumia'' \<and>
   extractProductInfo jumia_no_original ''Jumia Kenya'' ''u'' ''2026-01-01T00:00:00.000Z'' =
     Some hp_record \<and>
   discount hp_record = ''-20%'' \<and> imageUrl hp_record = ''hp.jpg'' \<and>
   includes_str ''Jumia Kenya'' ''Jumia''"
  using non_jumia_record_plain [of kilimall_block "''Kilimall Kenya''" "''u''" "''t''"]
    non_jumia_record_plain [of jumia_no_original "''Jumia Kenya''" "''u''"
      "''2026-01-01T00:00:00.000Z''" hp_record]
  by (simp add: kilimall_block_record hp_block_record shop_tests hp_record_def)

text \<open>
  Claim C1, as amended. Under the Kilimall and generic strategies \<open>originalPrice\<close> equals
  \<open>currentPrice\<close> and \<open>discount\<close> is empty. Under the Jumia strategy: when the scraped
  original price parses to a non-zero number, the record's \<open>originalPrice\<close> is that
  number, also when it is lower than the current price; when it is absent,
  \<open>originalPrice\<close> equals \<open>currentPrice\<close>; and whenever \<open>originalPrice\<close> is not above
  \<open>currentPrice\<close> the \<open>discount\<close> field is the scraped badge text, hence empty exactly
  when no badge text was scraped.
\<close>

theorem record_original_price:
  assumes "extractProductInfo el shopName pageUrl now = Some p"
  shows "(\<not> includes_str shopName ''Jumia'' \<longrightarrow> originalPrice p = currentPrice p \<and> discount p = [])
    \<and> (includes_str shopName ''Jumia'' \<longrightarrow>
         (truthy (extractPrice (trim (find_text el ''.old''))) \<longrightarrow>
            extractPrice (trim (find_text el ''.old'')) = Some (originalPrice p))
       \<and> (\<not> truthy (extractPrice (trim (find_text el ''.old''))) \<longrightarrow>
            originalPrice p = currentPrice p)
       \<and> (originalPrice p \<le> currentPrice p \<longrightarrow>
            discount p = trim (find_text el ''.bdg._dsct'')))"
proof (cases "includes_str shopName ''Jumia''")
  case False
  then show ?thesis using non_jumia_plain [OF False assms] by simp
next
  case True
  then have j: "extractJumiaProduct el shopName now = Some p"
    using assms by (simp add: extractProductInfo_def)
  obtain c where c: "extractPrice (trim (find_text el ''.prc'')) = Some c" and "c \<noteq> 0"
    using j by (auto simp: extractJumiaProduct_def Let_def truthy_def split: if_splits option.splits)
  show ?thesis
  proof (cases "extractPrice (trim (find_text el ''.old''))")
    case None
    then show ?thesis using j c True
      by (auto simp: extractJumiaProduct_def Let_def truthy_def or_price_def or_str_def
            calculateDiscount_def split: if_splits)
  next
    case (Some orig)
    then show ?thesis using j c True
      by (auto simp: extractJumiaProduct_def Let_def truthy_def or_price_def or_str_def
            calculateDiscount_def split: if_splits)
  qed
qed

theorem record_original_price_witness:
  "extractProductInfo jumia_lower_original ''Jumia Kenya'' ''u'' ''t'' =
     Some \<lparr> shop = ''Jumia Kenya'', name = ''Tecno Spark Phone'', category = Some ''phone'',
            currentPrice = 800, originalPrice = 500, discount = [],
            url = ''https://www.jumia.co.ke/tecno-spark.html'', imageUrl = [],
            timestamp = ''t'' \<rparr> \<and>
   includes_str ''Jumia Kenya'' ''Jumia'' \<and>
   extractPrice (trim (find_text jumia_lower_original ''.old'')) = Some 500 \<and>
   trim (find_text jumia_lower_original ''.bdg._dsct'') = []"
  using record_original_price [of jumia_lower_original "''Jumia Kenya''" "''u''" "''t''"]
  by (simp add: jumia_lower_original_record shop_tests jumia_lower_original_texts fixture_prices)

text \<open>
  The claim as worded fails on the Jumia strategy. A block with current price 800 and
  scraped original price 500 (both parse) yields a record whose \<open>originalPrice\<close> 500 is
  below its \<open>currentPrice\<close> 800 and not equal to it; a block without an original price
  and with the badge text -20 percent yields a record whose \<open>discount\<close> is not empty.
\<close>

theorem record_original_price_counterexample:
  "extractPrice (trim (find_text jumia_lower_original ''.old'')) = Some 500 \<and>
   extractPrice (trim (find_text jumia_lower_original ''.prc'')) = Some 800 \<and>
   map_option originalPrice (extractProductInfo jumia_lower_original ''Jumia Kenya'' ''u'' ''t'')
     = Some 500 \<and>
   map_option currentPrice (extractProductInfo jumia_lower_original ''Jumia Kenya'' ''u'' ''t'')
     = Some 800 \<and>
   extractPrice (trim (find_text jumia_no_original ''.old'')) = None \<and>
   map_option discount
     (extractProductInfo jumia_no_original ''Jumia Kenya'' ''u'' ''2026-01-01T00:00:00.000Z'')
     = Some ''-20%''"
  by (simp add: jumia_lower_original_record jumia_lower_original_texts fixture_prices
        hp_block_record hp_record_def)

section \<open>Page Extractor and Shop Crawler\<close>

lemma each_element_append:
  "each_element els nm u t acc = acc @ each_element els nm u t []"
proof (induction els arbitrary: acc)
  case Nil
  then show ?case by simp
next
  case (Cons el els)
  have snoc: "each_element els nm u t (acc @ [x]) = acc @ each_element els nm u t [x]" for x
    using Cons.IH [of "acc @ [x]"] Cons.IH [of "[x]"] by simp
  show ?case
    using snoc Cons.IH [of acc] by (simp split: option.splits)
qed

lemma each_element_accepted:
  "\<forall>p\<in>set acc. accepted p \<Longrightarrow> \<forall>p\<in>set (each_element els nm u t acc). accepted p"
proof (induction els arbitrary: acc)
  case Nil
  then show ?case by simp
next
  case (Cons el els)
  show ?case
    apply (simp only: each_element.simps)
    apply (rule Cons.IH)
    using Cons.prems
    apply (auto simp: accepted_def MAX_PRICE_def split: option.splits)
    done
qed

lemma scrapePage_requests: "snd (scrapePage w u nm reqs) = reqs @ [u]"
  by (simp add: scrapePage_def split: sum.splits option.splits)

lemma scrapePage_products: "fst (scrapePage w u nm reqs) = fst (scrapePage w u nm [])"
  by (simp add: scrapePage_def split: sum.splits option.splits)

lemma scrapePage_accepted: "\<forall>p\<in>set (fst (scrapePage w u nm reqs)). accepted p"
  using each_element_accepted [of "[]"]
  by (simp add: scrapePage_def split: sum.splits option.splits)

lemma scrapePage_fetch_failure:
  "axios_get w u = Inl e \<Longrightarrow> fst (scrapePage w u nm reqs) = []"
  by (simp add: scrapePage_def)

lemma scrapePage_parse_failure:
  "axios_get w u = Inr body \<Longrightarrow> cheerio_load w body = Inl e \<Longrightarrow>
   fst (scrapePage w u nm reqs) = []"
  by (simp add: scrapePage_def)

lemma scrapePage_pair:
  "scrapePage w u nm reqs = (fst (scrapePage w u nm []), reqs @ [u])"
  using scrapePage_requests [of w u nm reqs] scrapePage_products [of w u nm reqs]
  by (metis prod.collapse)

lemma scrapeShop_loop_eq:
  "scrapeShop_loop w nm urls (ps, reqs) =
     (ps @ concat (map (\<lambda>u. fst (scrapePage w u nm [])) urls), reqs @ urls)"
proof (induction urls arbitrary: ps reqs)
  case Nil
  then show ?case by simp
next
  case (Cons u urls)
  show ?case
    by (simp add: scrapePage_pair [of w u nm reqs] Cons.IH)
qed

lemma scrapeShop_eq:
  "scrapeShop w cfg reqs =
     (fst (scrapePage w (flashSalesUrl cfg) (shop_name cfg) []) @
        concat (map (\<lambda>u. fst (scrapePage w u (shop_name cfg) [])) (searchUrls cfg)),
      reqs @ flashSalesUrl cfg # searchUrls cfg)"
  by (simp add: scrapeShop_def scrapePage_pair [of w "flashSalesUrl cfg" "shop_name cfg" reqs]
        scrapeShop_loop_eq)

lemma scrape_shops_eq:
  "scrape_shops w shops (allp, reqs) =
     (allp @ concat (map (\<lambda>cfg. fst (scrapeShop w cfg [])) shops),
      reqs @ concat (map (\<lambda>cfg. flashSalesUrl cfg # searchUrls cfg) shops))"
proof (induction shops arbitrary: allp reqs)
  case Nil
  then show ?case by simp
next
  case (Cons cfg shops)
  show ?case
    by (simp add: scrapeShop_eq [of w cfg reqs] scrapeShop_eq [of w cfg "[]"] Cons.IH)
qed

lemma scrapeShop_accepted: "\<forall>p\<in>set (fst (scrapeShop w cfg reqs)). accepted p"
  using scrapePage_accepted by (auto simp: scrapeShop_eq)

lemma scrape_shops_accepted:
  "\<forall>p\<in>set (fst (scrape_shops w shops ([], []))). accepted p"
  using scrapeShop_accepted by (auto simp: scrape_shops_eq)

section \<open>Aggregator\<close>

lemma removeDuplicates_filter_subset:
  "set (removeDuplicates_filter seen ps) \<subseteq> set ps"
  by (induction ps arbitrary: seen) (auto simp: Let_def)

lemma removeDuplicates_subset: "set (removeDuplicates ps) \<subseteq> set ps"
  by (simp add: removeDuplicates_def removeDuplicates_filter_subset)

lemma items_main:
  "items (fst (main w)) =
     sort_by_price (removeDuplicates (fst (scrape_shops w SHOPS ([], []))))"
  by (simp add: main_def saveResults_def Let_def split: prod.splits)

lemma items_main_subset:
  "set (items (fst (main w))) \<subseteq> set (fst (scrape_shops w SHOPS ([], [])))"
  using removeDuplicates_subset by (simp add: items_main sort_by_price_def)

lemma map_insort_key: "map f (insort_key f x xs) = insort (f x) (map f xs)"
  by (induction xs) auto

lemma map_sort_key: "map f (sort_key f xs) = sort (map f xs)"
  by (induction xs) (auto simp: map_insort_key)

section \<open>A run with failing pages\<close>

lemma record_fields:
  "currentPrice hp_record = 9200" "category hp_record = Some ''laptop''"
  "currentPrice infinix_record = 3000" "category infinix_record = Some ''phone''"
  "currentPrice tecno_record = 8500" "category tecno_record = Some ''phone''"
  by (simp_all add: hp_record_def infinix_record_def tecno_record_def)

lemma world_fetch:
  "axios_get flash_down_world ''https://www.jumia.co.ke/mlp-flash-sales/'' =
     Inl (Error ''Network Error'')"
  "axios_get flash_down_world ''https://www.jumia.co.ke/laptops/'' = Inr ''laptops''"
  "axios_get flash_down_world ''https://www.jumia.co.ke/smartphones/'' = Inr ''smartphones''"
  "axios_get flash_down_world ''https://www.kilimall.co.ke/new-flash-sale.html'' = Inr ''garbled''"
  "axios_get flash_down_world
     ''https://www.kilimall.co.ke/kilimall-flash-sale-laptop-c-10000007.html'' =
     Inl (Error ''Network Error'')"
  "axios_get flash_down_world
     ''https://www.kilimall.co.ke/kilimall-flash-sale-phone-c-10000001.html'' =
     Inl (Error ''Network Error'')"
  "cheerio_load flash_down_world ''garbled'' = Inl (Error ''parse error'')"
  "cheerio_load flash_down_world ''laptops'' = Inr (mk_document [(''.prd'', [jumia_no_original])])"
  "cheerio_load flash_down_world ''smartphones'' =
     Inr (mk_document [(''.product-item'', [infinix_3000, tecno_8500, phone_case_54, hp_15000])])"
  "clock flash_down_world = ''2026-01-01T00:00:00.000Z''"
  by (simp_all add: flash_down_world_def)

lemma laptops_page:
  "fst (scrapePage flash_down_world ''https://www.jumia.co.ke/laptops/'' ''Jumia Kenya'' []) =
     [hp_record]"
  by (simp add: scrapePage_def world_fetch productSelectors_def mk_document_def
        hp_block_record record_fields MAX_PRICE_def)

lemma smartphones_page:
  "fst (scrapePage flash_down_world ''https://www.jumia.co.ke/smartphones/'' ''Jumia Kenya'' []) =
     [infinix_record, tecno_record]"
  by (simp add: scrapePage_def world_fetch productSelectors_def mk_document_def
        infinix_block_record tecno_block_record phone_case_block_record hp_15000_block_record
        record_fields MAX_PRICE_def)

lemma failing_pages:
  "fst (scrapePage flash_down_world ''https://www.jumia.co.ke/mlp-flash-sales/'' nm []) = []"
  "fst (scrapePage flash_down_world ''https://www.kilimall.co.ke/new-flash-sale.html'' nm []) = []"
  "fst (scrapePage flash_down_world
          ''https://www.kilimall.co.ke/kilimall-flash-sale-laptop-c-10000007.html'' nm []) = []"
  "fst (scrapePage flash_down_world
          ''https://www.kilimall.co.ke/kilimall-flash-sale-phone-c-10000001.html'' nm []) = []"
  by (simp_all add: scrapePage_def world_fetch)

lemma collected_run:
  "fst (scrape_shops flash_down_world SHOPS ([], [])) = [hp_record, infinix_record, tecno_record]"
  by (simp add: scrape_shops_eq scrapeShop_eq SHOPS_def laptops_page smartphones_page
        failing_pages)

lemma fixture_keys:
  "dedup_key hp_record = ''HP Laptop 15-9200-Jumia Kenya''"
  "dedup_key infinix_record = ''Infinix Hot 10-3000-Jumia Kenya''"
  "dedup_key tecno_record = ''Tecno Spark Phone-8500-Jumia Kenya''"
  by (simp_all add: dedup_key_def hp_record_def infinix_record_def tecno_record_def show_eval)

lemma dedup_run:
  "removeDuplicates [hp_record, infinix_record, tecno_record] =
     [hp_record, infinix_record, tecno_record]"
  by (simp add: removeDuplicates_def fixture_keys)

lemma sorted_run:
  "sort_by_price [hp_record, infinix_record, tecno_record] =
     [infinix_record, tecno_record, hp_record]"
  by (simp add: sort_by_price_def record_fields)

lemma items_run:
  "items (fst (main flash_down_world)) = [infinix_record, tecno_record, hp_record]"
  by (simp add: items_main collected_run dedup_run sorted_run)

section \<open>Properties of the pipeline\<close>

text \<open>
  Claim C2. Every item of the output artifact has category phone or laptop and a
  \<open>currentPrice\<close> that is at most the configured maximum price, which is 10000; a
  candidate that fails either condition is therefore not among the items.
\<close>

theorem output_items_accepted:
  "\<forall>p\<in>set (items (fst (main w))).
     (category p = Some ''phone'' \<or> category p = Some ''laptop'') \<and>
     currentPrice p \<le> MAX_PRICE \<and> MAX_PRICE = 10000"
  using items_main_subset [of w] scrape_shops_accepted [of w SHOPS]
  by (auto simp: accepted_def MAX_PRICE_def)

theorem output_items_accepted_witness:
  "items (fst (main flash_down_world)) = [infinix_record, tecno_record, hp_record] \<and>
   map category [infinix_record, tecno_record, hp_record] =
     [Some ''phone'', Some ''phone'', Some ''laptop''] \<and>
   map currentPrice [infinix_record, tecno_record, hp_record] = [3000, 8500, 9200] \<and>
   MAX_PRICE = 10000"
  using output_items_accepted [of flash_down_world]
  by (simp add: items_run record_fields)

text \<open>
  Claim C8. A page whose fetch or whose parse fails contributes no products. Whatever
  fails, a shop crawl requests the flash-sale URL and then every category URL, and the
  shop's products are those of its pages in that order; so a shop whose flash-sale fetch
  fails yields exactly the products of its category pages. The crawl over the configured
  shops collects the products of every shop and requests every URL of every shop.
\<close>

theorem page_failure_isolated:
  "(axios_get w u = Inl e \<longrightarrow> fst (scrapePage w u nm reqs) = []) \<and>
   (axios_get w u = Inr body \<and> cheerio_load w body = Inl e \<longrightarrow>
      fst (scrapePage w u nm reqs) = []) \<and>
   snd (scrapeShop w cfg reqs) = reqs @ flashSalesUrl cfg # searchUrls cfg \<and>
   fst (scrapeShop w cfg reqs) =
     fst (scrapePage w (flashSalesUrl cfg) (shop_name cfg) []) @
     concat (map (\<lambda>u. fst (scrapePage w u (shop_name cfg) [])) (searchUrls cfg)) \<and>
   (axios_get w (flashSalesUrl cfg) = Inl e \<longrightarrow>
      fst (scrapeShop w cfg reqs) =
        concat (map (\<lambda>u. fst (scrapePage w u (shop_name cfg) [])) (searchUrls cfg))) \<and>
   scrape_shops w SHOPS ([], []) =
     (concat (map (\<lambda>cfg. fst (scrapeShop w cfg [])) SHOPS),
      concat (map (\<lambda>cfg. flashSalesUrl cfg # searchUrls cfg) SHOPS))"
  using scrapePage_fetch_failure [of w u e nm reqs] scrapePage_parse_failure [of w u body e nm reqs]
    scrapePage_fetch_failure [of w "flashSalesUrl cfg" e "shop_name cfg" "[]"]
  by (simp add: scrapeShop_eq scrape_shops_eq)


theorem page_failure_isolated_witness:
  "axios_get flash_down_world ''https://www.jumia.co.ke/mlp-flash-sales/'' =
     Inl (Error ''Network Error'') \<and>
   scrapeShop flash_down_world (hd SHOPS) [] =
     ([hp_record, infinix_record, tecno_record],
      [''https://www.jumia.co.ke/mlp-flash-sales/'', ''https://www.jumia.co.ke/laptops/'',
       ''https://www.jumia.co.ke/smartphones/'']) \<and>
   axios_get flash_down_world ''https://www.kilimall.co.ke/new-flash-sale.html'' =
     Inr ''garbled'' \<and>
   cheerio_load flash_down_world ''garbled'' = Inl (Error ''parse error'') \<and>
   fst (scrapePage flash_down_world ''https://www.kilimall.co.ke/new-flash-sale.html''
          ''Kilimall Kenya'' []) = [] \<and>
   snd (main flash_down_world) =
     [''https://www.jumia.co.ke/mlp-flash-sales/'', ''https://www.jumia.co.ke/laptops/'',
      ''https://www.jumia.co.ke/smartphones/'',
      ''https://www.kilimall.co.ke/new-flash-sale.html'',
      ''https://www.kilimall.co.ke/kilimall-flash-sale-laptop-c-10000007.html'',
      ''https://www.kilimall.co.ke/kilimall-flash-sale-phone-c-10000001.html'']"
  using page_failure_isolated [of flash_down_world
      "''https://www.kilimall.co.ke/new-flash-sale.html''" "Error ''parse error''"
      "''Kilimall Kenya''" "[]" "''garbled''" "hd SHOPS"]
  by (simp add: world_fetch SHOPS_def laptops_page smartphones_page failing_pages main_def
        Let_def split: prod.splits)


text \<open>
  Claim C9. The items of the output artifact are in ascending order of \<open>currentPrice\<close>;
  products with the prices 9200, 3000, 8500 come out with the prices 3000, 8500, 9200.
\<close>

theorem output_items_sorted:
  "sorted (map currentPrice (items (fst (main w)))) \<and>
   (map currentPrice ps = [9200, 3000, 8500] \<longrightarrow>
      map currentPrice (sort_by_price ps) = [3000, 8500, 9200])"
  by (simp add: items_main sort_by_price_def map_sort_key)

theorem output_items_sorted_witness:
  "map currentPrice [hp_record, infinix_record, tecno_record] = [9200, 3000, 8500] \<and>
   map currentPrice (sort_by_price [hp_record, infinix_record, tecno_record]) =
     [3000, 8500, 9200] \<and>
   map currentPrice (items (fst (main flash_down_world))) = [3000, 8500, 9200]"
  using output_items_sorted [of flash_down_world "[hp_record, infinix_record, tecno_record]"]
  by (simp add: items_run record_fields)

section \<open>The Price Parser on well-formed price texts\<close>



































section \<open>Rendering numbers\<close>














section \<open>The key of \<open>removeDuplicates\<close>\<close>





section \<open>\<open>removeDuplicates\<close>\<close>










end
